theory Spec2Isabelle
  imports Main
begin

section \<open>The command-line layer: \<^verbatim>\<open>taf/tools/repo/__init__.py\<close>\<close>

subsection \<open>Python values the commands handle\<close>

text \<open>
  Exceptions are values. \<open>Exception\<close> stands for an instance of Python's \<^verbatim>\<open>Exception\<close>
  class (or of a subclass other than click's), \<open>UsageError\<close> for \<^verbatim>\<open>click.UsageError\<close> and
  its subclasses (click raises them for a missing argument or a value outside a
  \<^verbatim>\<open>click.Choice\<close>), and \<open>SystemExit\<close> and \<open>KeyboardInterrupt\<close> for the two
  exceptions outside the \<^verbatim>\<open>Exception\<close> hierarchy. Each carries what \<^verbatim>\<open>str(e)\<close> gives.
\<close>

datatype py_exc =
    Exception string
  | UsageError string
  | SystemExit nat
  | KeyboardInterrupt

text \<open>
  \<^verbatim>\<open>except Exception as e\<close>: the clause matches instances of \<^verbatim>\<open>Exception\<close>, and
  \<^verbatim>\<open>click.UsageError\<close> is one; the result is \<^verbatim>\<open>str(e)\<close> when it matches.
\<close>

fun as_Exception :: "py_exc \<Rightarrow> string option" where
  "as_Exception (Exception m) = Some m"
| "as_Exception (UsageError m) = Some m"
| "as_Exception (SystemExit n) = None"
| "as_Exception KeyboardInterrupt = None"

text \<open>
  The exit status of the process, as click's standalone mode and the interpreter give it:
  zero when the command's function returns, 2 for a usage error, 1 for any other
  exception that escapes, and the code of a \<^verbatim>\<open>SystemExit\<close>.
\<close>

fun exit_status :: "py_exc + unit \<Rightarrow> nat" where
  "exit_status (Inr u) = 0"
| "exit_status (Inl (UsageError m)) = 2"
| "exit_status (Inl (Exception m)) = 1"
| "exit_status (Inl (SystemExit n)) = n"
| "exit_status (Inl KeyboardInterrupt) = 1"

text \<open>
  What the commands write to standard output: a line of text, or the serialisation
  \<^verbatim>\<open>json.dumps\<close> gives of a dictionary (kept as the dictionary, in key order).
\<close>

datatype json = JBool bool | JString string | JObject "(string \<times> json) list"

datatype stdout_line = Print string | PrintJson json

subsection \<open>The updater's entry points, as the commands see them\<close>

text \<open>
  \<^verbatim>\<open>update_repository\<close>, \<^verbatim>\<open>validate_repository\<close> and the enumeration
  \<^verbatim>\<open>UpdateType\<close> are imported from \<^verbatim>\<open>taf.updater.updater\<close>. The commands only call
  them, so they are parameters here: each either returns or raises, and \<open>'u\<close> is the type
  of the enumeration's members.
\<close>

record 'u update_repository_args =
  ua_url :: string
  ua_clients_auth_path :: "string option"
  ua_clients_library_dir :: "string option"
  ua_default_branch :: string
  ua_from_fs :: bool
  ua_expected_repo_type :: 'u
  ua_scripts_root_dir :: "string option"

record validate_repository_args =
  va_clients_auth_path :: string
  va_clients_library_dir :: "string option"
  va_default_branch :: string
  va_from_commit :: "string option"

record 'u updater =
  UpdateType :: "string \<Rightarrow> py_exc + 'u"
  update_repository :: "'u update_repository_args \<Rightarrow> py_exc + unit"
  validate_repository :: "validate_repository_args \<Rightarrow> py_exc + unit"

text \<open>
  What one run of a command did: the value its function ended with (returned, or the
  exception that escaped), the lines printed, the calls made to the updater in order, and
  whether the profiler was started and its exit handler registered.
\<close>

record 'u update_result =
  res_value :: "py_exc + unit"
  res_stdout :: "stdout_line list"
  res_calls :: "'u update_repository_args list"
  res_profiling :: bool

record validate_result =
  vres_value :: "py_exc + unit"
  vres_calls :: "validate_repository_args list"

subsection \<open>The \<^verbatim>\<open>update\<close> command\<close>

definition usage_message :: string where
  "usage_message = ''Must specify either authentication repository path or library directory!''"

definition success_payload :: json where
  "success_payload = JObject [(''updateSuccessful'', JBool True)]"

definition error_payload :: "string \<Rightarrow> json" where
  "error_payload msg = JObject [(''updateSuccessful'', JBool False), (''error'', JString msg)]"

text \<open>
  The \<^verbatim>\<open>except Exception as e\<close> clause of \<^verbatim>\<open>update\<close> (lines 258 to 266): with
  \<^verbatim>\<open>format_output\<close> the error payload is printed and the function goes on to return;
  without it the exception is raised again. An exception the clause does not match
  escapes.
\<close>

definition except_clause :: "bool \<Rightarrow> py_exc \<Rightarrow> (py_exc + unit) \<times> stdout_line list" where
  "except_clause format_output e =
     (case as_Exception e of
        None \<Rightarrow> (Inl e, [])
      | Some msg \<Rightarrow>
          if format_output then (Inr (), [PrintJson (error_payload msg)])
          else (Inl e, []))"

text \<open>
  The body of \<^verbatim>\<open>update\<close> (lines 225 to 266), on the parameters click hands it. The
  arguments of the call are evaluated before the call, so an \<^verbatim>\<open>UpdateType(...)\<close> that
  raises is caught by the same clause and no call is made.
\<close>

definition update ::
  "'u updater \<Rightarrow> string \<Rightarrow> string option \<Rightarrow> string option \<Rightarrow> string \<Rightarrow> bool \<Rightarrow> string \<Rightarrow>
     string option \<Rightarrow> bool \<Rightarrow> bool \<Rightarrow> 'u update_result" where
  "update env url clients_auth_path clients_library_dir default_branch from_fs
      expected_repo_type scripts_root_dir profile format_output =
     (if clients_auth_path = None \<and> clients_library_dir = None then
        \<lparr>res_value = Inl (UsageError usage_message), res_stdout = [], res_calls = [],
         res_profiling = False\<rparr>
      else
        let printed = (if profile then [Print ''Profiling...''] else []) in
        case UpdateType env expected_repo_type of
          Inl e \<Rightarrow>
            \<lparr>res_value = fst (except_clause format_output e),
             res_stdout = printed @ snd (except_clause format_output e),
             res_calls = [], res_profiling = profile\<rparr>
        | Inr t \<Rightarrow>
            let args = \<lparr>ua_url = url, ua_clients_auth_path = clients_auth_path,
                        ua_clients_library_dir = clients_library_dir,
                        ua_default_branch = default_branch, ua_from_fs = from_fs,
                        ua_expected_repo_type = t, ua_scripts_root_dir = scripts_root_dir\<rparr>
            in (case update_repository env args of
                  Inr u \<Rightarrow>
                    \<lparr>res_value = Inr (),
                     res_stdout = printed @
                       (if format_output then [PrintJson success_payload] else []),
                     res_calls = [args], res_profiling = profile\<rparr>
                | Inl e \<Rightarrow>
                    \<lparr>res_value = fst (except_clause format_output e),
                     res_stdout = printed @ snd (except_clause format_output e),
                     res_calls = [args], res_profiling = profile\<rparr>))"

text \<open>
  The handler \<^verbatim>\<open>update\<close> registers with \<^verbatim>\<open>atexit\<close> when it profiles (lines 236 to 242):
  what it prints when the interpreter exits, after it has stopped the profiler and before
  it writes \<^verbatim>\<open>updater.prof\<close>.
\<close>

definition at_exit :: "'u update_result \<Rightarrow> stdout_line list" where
  "at_exit r = (if res_profiling r then [Print ''Profiling completed''] else [])"

text \<open>
  One invocation of \<^verbatim>\<open>update\<close> as click receives it (lines 182 to 201): the argument
  (absent when the command line gives none), each option as given or absent, each flag as
  set or not.
\<close>

record update_invocation =
  arg_url :: "string option"
  opt_clients_auth_path :: "string option"
  opt_clients_library_dir :: "string option"
  opt_default_branch :: "string option"
  flag_from_fs :: bool
  opt_expected_repo_type :: "string option"
  opt_scripts_root_dir :: "string option"
  flag_profile :: bool
  flag_format_output :: bool

definition expected_repo_type_choices :: "string list" where
  "expected_repo_type_choices = [''test'', ''official'', ''either'']"

text \<open>\<^verbatim>\<open>click.Choice\<close>: the value as it is when it is one of the choices, a usage error otherwise.\<close>

definition click_choice :: "string list \<Rightarrow> string \<Rightarrow> py_exc + string" where
  "click_choice choices v =
     (if v \<in> set choices then Inr v else Inl (UsageError (''Invalid value: '' @ v)))"

definition option_default :: "'a \<Rightarrow> 'a option \<Rightarrow> 'a" where
  "option_default d v = (case v of None \<Rightarrow> d | Some x \<Rightarrow> x)"

definition failed_parse :: "py_exc \<Rightarrow> 'u update_result" where
  "failed_parse e = \<lparr>res_value = Inl e, res_stdout = [], res_calls = [], res_profiling = False\<rparr>"

text \<open>
  click converts the parameters, with the declared defaults, and calls the function only
  when every conversion succeeds.
\<close>

definition update_command :: "'u updater \<Rightarrow> update_invocation \<Rightarrow> 'u update_result" where
  "update_command env cl =
     (case arg_url cl of
        None \<Rightarrow> failed_parse (UsageError ''Missing argument: url'')
      | Some url \<Rightarrow>
          (case click_choice expected_repo_type_choices
                  (option_default ''either'' (opt_expected_repo_type cl)) of
             Inl e \<Rightarrow> failed_parse e
           | Inr expected_repo_type \<Rightarrow>
               update env url (opt_clients_auth_path cl) (opt_clients_library_dir cl)
                 (option_default ''main'' (opt_default_branch cl)) (flag_from_fs cl)
                 expected_repo_type (opt_scripts_root_dir cl) (flag_profile cl)
                 (flag_format_output cl)))"

subsection \<open>The \<^verbatim>\<open>validate\<close> command\<close>

text \<open>The body of \<^verbatim>\<open>validate\<close> (line 282): one call, whose exception escapes.\<close>

definition validate ::
  "'u updater \<Rightarrow> string \<Rightarrow> string option \<Rightarrow> string \<Rightarrow> string option \<Rightarrow> validate_result" where
  "validate env clients_auth_path clients_library_dir default_branch from_commit =
     (let args = \<lparr>va_clients_auth_path = clients_auth_path,
                  va_clients_library_dir = clients_library_dir,
                  va_default_branch = default_branch, va_from_commit = from_commit\<rparr>
      in \<lparr>vres_value = validate_repository env args, vres_calls = [args]\<rparr>)"

record validate_invocation =
  varg_clients_auth_path :: "string option"
  vopt_clients_library_dir :: "string option"
  vopt_default_branch :: "string option"
  vopt_from_commit :: "string option"

definition validate_command :: "'u updater \<Rightarrow> validate_invocation \<Rightarrow> validate_result" where
  "validate_command env cl =
     (case varg_clients_auth_path cl of
        None \<Rightarrow> \<lparr>vres_value = Inl (UsageError ''Missing argument: clients-auth-path''),
                  vres_calls = []\<rparr>
      | Some clients_auth_path \<Rightarrow>
          validate env clients_auth_path (vopt_clients_library_dir cl)
            (option_default ''main'' (vopt_default_branch cl)) (vopt_from_commit cl))"

subsection \<open>Notions the statements about the commands use\<close>

text \<open>
  An invocation passes option validation when click can convert its parameters (the
  argument is given and the repository type, the default when omitted, is one of the
  choices) and the check of lines 225 and 226 lets it through.
\<close>

definition update_options_valid :: "update_invocation \<Rightarrow> bool" where
  "update_options_valid cl =
     (arg_url cl \<noteq> None \<and>
      option_default ''either'' (opt_expected_repo_type cl) \<in> set expected_repo_type_choices \<and>
      (opt_clients_auth_path cl \<noteq> None \<or> opt_clients_library_dir cl \<noteq> None))"

text \<open>The arguments \<^verbatim>\<open>update\<close> and \<^verbatim>\<open>validate\<close> build from an invocation (lines 245 to 253, line 282).\<close>

definition update_args_of :: "update_invocation \<Rightarrow> 'u \<Rightarrow> 'u update_repository_args" where
  "update_args_of cl t =
     \<lparr>ua_url = the (arg_url cl), ua_clients_auth_path = opt_clients_auth_path cl,
      ua_clients_library_dir = opt_clients_library_dir cl,
      ua_default_branch = option_default ''main'' (opt_default_branch cl),
      ua_from_fs = flag_from_fs cl, ua_expected_repo_type = t,
      ua_scripts_root_dir = opt_scripts_root_dir cl\<rparr>"

definition validate_args_of :: "validate_invocation \<Rightarrow> validate_repository_args" where
  "validate_args_of cl =
     \<lparr>va_clients_auth_path = the (varg_clients_auth_path cl),
      va_clients_library_dir = vopt_clients_library_dir cl,
      va_default_branch = option_default ''main'' (vopt_default_branch cl),
      va_from_commit = vopt_from_commit cl\<rparr>"

text \<open>What \<^verbatim>\<open>update\<close> prints before the call (line 232).\<close>

definition profiling_lines :: "update_invocation \<Rightarrow> stdout_line list" where
  "profiling_lines cl = (if flag_profile cl then [Print ''Profiling...''] else [])"

text \<open>
  Concrete inputs for the statements below: an updater whose enumeration has the three
  members the command line offers and whose entry points end with a given outcome, and
  invocations of the two commands.
\<close>

definition example_updater :: "(py_exc + unit) \<Rightarrow> string updater" where
  "example_updater outcome =
     \<lparr>UpdateType = (\<lambda>v. if v \<in> set expected_repo_type_choices then Inr v
                         else Inl (Exception (v @ '' is not a valid UpdateType''))),
      update_repository = (\<lambda>a. outcome),
      validate_repository = (\<lambda>a. outcome)\<rparr>"

definition example_update :: update_invocation where
  "example_update =
     \<lparr>arg_url = Some ''https://example.org/auth.git'',
      opt_clients_auth_path = Some ''/library/namespace/auth'',
      opt_clients_library_dir = None, opt_default_branch = None, flag_from_fs = False,
      opt_expected_repo_type = None, opt_scripts_root_dir = None, flag_profile = False,
      flag_format_output = True\<rparr>"

definition example_validate :: validate_invocation where
  "example_validate =
     \<lparr>varg_clients_auth_path = Some ''/library/namespace/auth'',
      vopt_clients_library_dir = None, vopt_default_branch = None, vopt_from_commit = None\<rparr>"

definition example_bad_type :: update_invocation where
  "example_bad_type = example_update\<lparr>opt_expected_repo_type := Some ''production''\<rparr>"

definition example_test_type :: update_invocation where
  "example_test_type = example_update\<lparr>opt_expected_repo_type := Some ''test''\<rparr>"

definition example_no_paths :: update_invocation where
  "example_no_paths = example_update\<lparr>opt_clients_auth_path := None\<rparr>"

section \<open>The update and validation engine\<close>

text \<open>
  The commands hand their work to \<^verbatim>\<open>taf.updater.updater\<close>, which is not among the
  sources. What the specification says of that engine (its sections 3 and 4) is modelled
  here, one definition for each notion, each introduced by the words of the specification
  it follows. Git, the network and the cryptographic primitives are capabilities the
  engine is given: they are parameters.
\<close>

subsection \<open>Data model\<close>

type_synonym key_id = string
type_synonym role_name = string
type_synonym commit_id = string
type_synonym signature = string
type_synonym bytes = string
type_synonym digest = string
type_synonym timestamp = nat
type_synonym path = "string list"

text \<open>
  Modelled from the spec: (missing: \<^verbatim>\<open>taf.updater.updater\<close>)
  the Key entity of the updater (section 3), which is not under
  \<^verbatim>\<open>src/\<close>: identifier, public key bytes, signing scheme tag.
\<close>

record key =
  key_ident :: key_id
  key_public :: bytes
  key_scheme :: string

text \<open>
  Modelled from the spec: (missing: \<^verbatim>\<open>taf.updater.updater\<close>)
  the Role entity of the updater (section 3): name, ordered set of
  authorized key identifiers, integer signature threshold, optional expiration timestamp.
\<close>

record role =
  role_title :: role_name
  role_keyids :: "key_id list"
  role_threshold :: nat
  role_expiration :: "timestamp option"

text \<open>
  Modelled from the spec: (missing: \<^verbatim>\<open>taf.updater.updater\<close>)
  the authorized content of a Metadata Generation (section 3): the
  key list and role definitions for a root-like role, the target-file hash manifest for a
  targets-like role; and, from section 4.3, what a snapshot-like document lists (for every
  other role's metadata file a content hash and a version) and what a timestamp-like
  document references (the snapshot version).
\<close>

datatype content =
    RootKeys "key list" "role list"
  | TargetManifest "(string \<times> digest) list"
  | SnapshotRefs "(role_name \<times> digest \<times> nat) list"
  | TimestampRef nat

text \<open>
  Modelled from the spec: (missing: \<^verbatim>\<open>taf.updater.updater\<close>)
  the Metadata Generation entity (section 3): a signed document of
  one role with a version counter, an expiration time, the role's authorized content and a
  set of (key-id, signature) pairs.
\<close>

record generation =
  gen_role :: role_name
  gen_version :: nat
  gen_expires :: timestamp
  gen_content :: content
  gen_signatures :: "(key_id \<times> signature) list"

text \<open>
  Modelled from the spec: (missing: \<^verbatim>\<open>taf.updater.updater\<close>)
  the raw document the Metadata Store materializes (section 4.2),
  before it is parsed into the generation schema; a part the file lacks is absent.
\<close>

record raw_document =
  raw_version :: "nat option"
  raw_expires :: "timestamp option"
  raw_content :: "content option"
  raw_signatures :: "(key_id \<times> signature) list option"

text \<open>
  Modelled from the spec: (missing: \<^verbatim>\<open>taf.updater.updater\<close>)
  one entry of the Repositories Descriptor (sections 3 and 6): the
  urls of a repository and its custom attributes.
\<close>

record descriptor_entry =
  de_urls :: "string list"
  de_custom :: "(string \<times> string) list"

text \<open>
  Modelled from the spec: (missing: \<^verbatim>\<open>taf.updater.updater\<close>)
  a commit of the authentication repository, as far as the engine
  reads it: its timestamp (section 4.3, expiration check), the metadata documents present
  at it, one for each role (section 4.2), the Repositories Descriptor and the optional
  Mirrors Descriptor (sections 3 and 6), and the commits its target files pin, by
  repository (section 4.5).
\<close>

record commit =
  commit_ident :: commit_id
  commit_time :: timestamp
  commit_documents :: "(role_name \<times> raw_document) list"
  commit_repositories :: "(string \<times> descriptor_entry) list"
  commit_mirrors :: "string list option"
  commit_pins :: "(string \<times> commit_id) list"

text \<open>
  Modelled from the spec: (missing: \<^verbatim>\<open>taf.updater.updater\<close>)
  the error taxonomy of section 7, with the insufficient-signature
  error section 8 names.
\<close>

datatype failure =
    MalformedMetadata | InsufficientSignatures | RollbackDetected | MetadataExpired
  | SnapshotMismatch | TimestampStale | UrlMismatch | MissingPinnedCommit
  | CommitOrderMismatch | NotFound | NetworkFailure | LayoutUnresolvable

text \<open>
  Modelled from the spec: (missing: \<^verbatim>\<open>taf.updater.updater\<close>)
  the cryptographic capability the Trust Chain Validator uses
  (section 4.3): verification of one signature by one key over bytes, the canonical byte
  form of a document without its signature block, and the content hash of a metadata file.
\<close>

record crypto =
  verify_signature :: "key \<Rightarrow> bytes \<Rightarrow> signature \<Rightarrow> bool"
  canonical_form :: "role_name \<times> nat \<times> timestamp \<times> content \<Rightarrow> bytes"
  content_hash :: "generation \<Rightarrow> digest"

text \<open>
  Modelled from the spec: (missing: \<^verbatim>\<open>taf.updater.updater\<close>)
  the trusted generation, the last trusted document of every role
  (sections 3 and 4.3); the first entry for a role is the one in force.
\<close>

type_synonym trusted = "(role_name \<times> generation) list"

subsection \<open>Key and role model\<close>

text \<open>
  Modelled from the spec: (missing: \<^verbatim>\<open>taf.updater.updater\<close>)
  the previously trusted root-role definition (section 4.1), the
  keys and role definitions of the trusted root document.
\<close>

definition trusted_root :: "trusted \<Rightarrow> (key list \<times> role list) option" where
  "trusted_root T =
     (case map_of T ''root'' of
        None \<Rightarrow> None
      | Some g \<Rightarrow> (case gen_content g of RootKeys ks rs \<Rightarrow> Some (ks, rs) | _ \<Rightarrow> None))"

text \<open>
  Modelled from the spec: (missing: \<^verbatim>\<open>taf.updater.updater\<close>)
  \<^verbatim>\<open>resolveRole(name) -> Role | NotFound\<close> of section 4.1, a pure
  lookup over the trusted state; \<open>None\<close> is \<^verbatim>\<open>NotFound\<close>.
\<close>

definition resolveRole :: "trusted \<Rightarrow> role_name \<Rightarrow> role option" where
  "resolveRole T name =
     (case trusted_root T of
        None \<Rightarrow> None
      | Some (ks, rs) \<Rightarrow> find (\<lambda>r. role_title r = name) rs)"

text \<open>
  Modelled from the spec: (missing: \<^verbatim>\<open>taf.updater.updater\<close>)
  the key an authorized key identifier stands for, among the keys
  of the trusted root document (section 4.1).
\<close>

definition resolveKey :: "trusted \<Rightarrow> key_id \<Rightarrow> key option" where
  "resolveKey T kid =
     (case trusted_root T of
        None \<Rightarrow> None
      | Some (ks, rs) \<Rightarrow> find (\<lambda>k. key_ident k = kid) ks)"

subsection \<open>Metadata store\<close>

text \<open>
  Modelled from the spec: (missing: \<^verbatim>\<open>taf.updater.updater\<close>)
  parsing a raw document into the generation schema (section 4.2);
  \<^verbatim>\<open>MalformedMetadata\<close> when the version, the expiration, the content or the signatures
  block is missing.
\<close>

definition parse_document :: "role_name \<Rightarrow> raw_document \<Rightarrow> failure + generation" where
  "parse_document name d =
     (case (raw_version d, raw_expires d, raw_content d, raw_signatures d) of
        (Some v, Some e, Some c, Some sigs) \<Rightarrow>
          Inr \<lparr>gen_role = name, gen_version = v, gen_expires = e, gen_content = c,
               gen_signatures = sigs\<rparr>
      | _ \<Rightarrow> Inl MalformedMetadata)"

text \<open>
  Modelled from the spec: (missing: \<^verbatim>\<open>taf.updater.updater\<close>)
  the documents of a commit parsed in order, stopping at the first
  that is malformed (section 4.2).
\<close>

fun parse_documents ::
  "(role_name \<times> raw_document) list \<Rightarrow> failure + (role_name \<times> generation) list" where
  "parse_documents [] = Inr []"
| "parse_documents ((name, d) # ds) =
     (case parse_document name d of
        Inl f \<Rightarrow> Inl f
      | Inr g \<Rightarrow>
          (case parse_documents ds of Inl f \<Rightarrow> Inl f | Inr gs \<Rightarrow> Inr ((name, g) # gs)))"

text \<open>
  Modelled from the spec: (missing: \<^verbatim>\<open>taf.updater.updater\<close>)
  \<^verbatim>\<open>loadGenerations(commit)\<close> of section 4.2, the generations present
  at a commit, one for each role, not verified.
\<close>

definition loadGenerations :: "commit \<Rightarrow> failure + (role_name \<times> generation) list" where
  "loadGenerations c = parse_documents (commit_documents c)"

subsection \<open>Trust chain validator\<close>

text \<open>
  Modelled from the spec: (missing: \<^verbatim>\<open>taf.updater.updater\<close>)
  the part of a document its signatures cover, the document
  without the signature block (section 4.3, step 1).
\<close>

definition signed_part :: "generation \<Rightarrow> role_name \<times> nat \<times> timestamp \<times> content" where
  "signed_part g = (gen_role g, gen_version g, gen_expires g, gen_content g)"

text \<open>
  Modelled from the spec: (missing: \<^verbatim>\<open>taf.updater.updater\<close>)
  a key identifier has a signature on the document that verifies
  over the canonical byte form, under the key the previous trusted generation gives it
  (section 4.3, step 1).
\<close>

definition key_verifies :: "crypto \<Rightarrow> trusted \<Rightarrow> generation \<Rightarrow> key_id \<Rightarrow> bool" where
  "key_verifies cr T g kid =
     (case resolveKey T kid of
        None \<Rightarrow> False
      | Some k \<Rightarrow>
          list_ex (\<lambda>(kid', s). kid' = kid \<and>
                     verify_signature cr k (canonical_form cr (signed_part g)) s)
            (gen_signatures g))"

text \<open>
  Modelled from the spec: (missing: \<^verbatim>\<open>taf.updater.updater\<close>)
  the distinct keys of the role's authorized key set, as the
  previous trusted generation defines it, whose signature verifies (section 4.3, step 1).
\<close>

definition verifying_keys :: "crypto \<Rightarrow> trusted \<Rightarrow> role \<Rightarrow> generation \<Rightarrow> key_id list" where
  "verifying_keys cr T r g = filter (key_verifies cr T g) (remdups (role_keyids r))"

text \<open>
  Modelled from the spec: (missing: \<^verbatim>\<open>taf.updater.updater\<close>)
  the signature check, step 1 of section 4.3: at least
  \<^verbatim>\<open>threshold\<close> signatures from the previous trusted generation's authorized key set, not
  from the keys the new document claims. For the root role the specification also accepts
  signatures of the new root's keys when the threshold on the old set is met: the
  condition is the threshold on the old set, as for every role. A role no trusted root
  defines is \<^verbatim>\<open>NotFound\<close> (section 4.1).
\<close>

definition signature_check :: "crypto \<Rightarrow> trusted \<Rightarrow> generation \<Rightarrow> failure option" where
  "signature_check cr T g =
     (case resolveRole T (gen_role g) of
        None \<Rightarrow> Some NotFound
      | Some r \<Rightarrow>
          if role_threshold r \<le> length (verifying_keys cr T r g) then None
          else Some InsufficientSignatures)"

text \<open>
  Modelled from the spec: (missing: \<^verbatim>\<open>taf.updater.updater\<close>)
  version monotonicity, step 2 of section 4.3: the new version is
  strictly greater than the last trusted version of the role; an equal or lower version is
  \<^verbatim>\<open>RollbackDetected\<close>.
\<close>

definition version_check :: "trusted \<Rightarrow> generation \<Rightarrow> failure option" where
  "version_check T g =
     (case map_of T (gen_role g) of
        None \<Rightarrow> None
      | Some p \<Rightarrow> if gen_version p < gen_version g then None else Some RollbackDetected)"

text \<open>
  Modelled from the spec: (missing: \<^verbatim>\<open>taf.updater.updater\<close>)
  the expiration check, step 3 of section 4.3: the declared
  expiration is after the commit's timestamp, else \<^verbatim>\<open>MetadataExpired\<close>.
\<close>

definition expiry_check :: "commit \<Rightarrow> generation \<Rightarrow> failure option" where
  "expiry_check c g = (if commit_time c < gen_expires g then None else Some MetadataExpired)"

text \<open>Modelled from the spec: (missing: \<^verbatim>\<open>taf.updater.updater\<close>)
  a snapshot-like document (section 4.3, step 4).\<close>

definition is_snapshot :: "generation \<Rightarrow> bool" where
  "is_snapshot g = (case gen_content g of SnapshotRefs refs \<Rightarrow> True | _ \<Rightarrow> False)"

text \<open>
  Modelled from the spec: (missing: \<^verbatim>\<open>taf.updater.updater\<close>)
  what a snapshot-like document has to list (section 4.3, step 4):
  for every other role's metadata file loaded at the commit, its content hash and version.
\<close>

definition others_listed ::
  "crypto \<Rightarrow> (role_name \<times> generation) list \<Rightarrow> role_name \<Rightarrow>
     (role_name \<times> digest \<times> nat) list" where
  "others_listed cr loaded name =
     map (\<lambda>(n, g). (n, content_hash cr g, gen_version g)) (filter (\<lambda>(n, g). n \<noteq> name) loaded)"

text \<open>
  Modelled from the spec: (missing: \<^verbatim>\<open>taf.updater.updater\<close>)
  cross-reference integrity, step 4 of section 4.3: a snapshot-like
  document that diverges from the loaded documents is \<^verbatim>\<open>SnapshotMismatch\<close>; a
  timestamp-like document that does not reference the current snapshot version is
  \<^verbatim>\<open>TimestampStale\<close>.
\<close>

definition crossref_check ::
  "crypto \<Rightarrow> (role_name \<times> generation) list \<Rightarrow> generation \<Rightarrow> failure option" where
  "crossref_check cr loaded g =
     (case gen_content g of
        SnapshotRefs refs \<Rightarrow>
          if set refs = set (others_listed cr loaded (gen_role g)) then None
          else Some SnapshotMismatch
      | TimestampRef v \<Rightarrow>
          (case find (\<lambda>(n, s). is_snapshot s) loaded of
             None \<Rightarrow> Some TimestampStale
           | Some (n, s) \<Rightarrow> if v = gen_version s then None else Some TimestampStale)
      | _ \<Rightarrow> None)"

text \<open>
  Modelled from the spec: (missing: \<^verbatim>\<open>taf.updater.updater\<close>)
  the validation of one generation against the previous trusted
  generation (sections 2 and 4.3): the four checks in the order of the state machine,
  signatures, version, expiry, cross-references; the first failure is the reason of the
  rejection and \<open>None\<close> is \<^verbatim>\<open>TRUSTED\<close>.
\<close>

definition validate_generation ::
  "crypto \<Rightarrow> trusted \<Rightarrow> commit \<Rightarrow> (role_name \<times> generation) list \<Rightarrow> generation \<Rightarrow>
     failure option" where
  "validate_generation cr T c loaded g =
     (case signature_check cr T g of
        Some f \<Rightarrow> Some f
      | None \<Rightarrow>
          (case version_check T g of
             Some f \<Rightarrow> Some f
           | None \<Rightarrow>
               (case expiry_check c g of
                  Some f \<Rightarrow> Some f
                | None \<Rightarrow> crossref_check cr loaded g)))"

text \<open>
  Modelled from the spec: (missing: \<^verbatim>\<open>taf.updater.updater\<close>)
  the checks performed role by role at one commit (section 4.3);
  any failure rejects the commit.
\<close>

fun validate_generations ::
  "crypto \<Rightarrow> trusted \<Rightarrow> commit \<Rightarrow> (role_name \<times> generation) list \<Rightarrow>
     (role_name \<times> generation) list \<Rightarrow> failure option" where
  "validate_generations cr T c loaded [] = None"
| "validate_generations cr T c loaded ((n, g) # gs) =
     (case validate_generation cr T c loaded g of
        Some f \<Rightarrow> Some f
      | None \<Rightarrow> validate_generations cr T c loaded gs)"

text \<open>
  Modelled from the spec: (missing: \<^verbatim>\<open>taf.updater.updater\<close>)
  the promotion of a commit's metadata to the new trusted
  generation (section 4.3): its documents replace those of the same roles.
\<close>

definition promote :: "(role_name \<times> generation) list \<Rightarrow> trusted \<Rightarrow> trusted" where
  "promote loaded T = loaded @ filter (\<lambda>(n, g). n \<notin> fst ` set loaded) T"

text \<open>
  Modelled from the spec: (missing: \<^verbatim>\<open>taf.updater.updater\<close>)
  the validation of one commit (sections 4.2 and 4.3): its
  metadata is promoted only if every check passes for every role; malformed metadata
  rejects the commit.
\<close>

definition validate_commit :: "crypto \<Rightarrow> trusted \<Rightarrow> commit \<Rightarrow> failure + trusted" where
  "validate_commit cr T c =
     (case loadGenerations c of
        Inl f \<Rightarrow> Inl f
      | Inr loaded \<Rightarrow>
          (case validate_generations cr T c loaded loaded of
             Some f \<Rightarrow> Inl f
           | None \<Rightarrow> Inr (promote loaded T)))"

text \<open>
  Modelled from the spec: (missing: \<^verbatim>\<open>taf.updater.updater\<close>)
  what the Trust Chain Validator reports of a commit sequence
  (section 4.3): the trusted generation reached, the commits promoted, the commits
  evaluated, and the commit and reason of the rejection when there is one.
\<close>

record chain_result =
  chain_trusted :: trusted
  chain_promoted :: "commit_id list"
  chain_evaluated :: "commit_id list"
  chain_halt :: "(commit_id \<times> failure) option"

text \<open>
  Modelled from the spec: (missing: \<^verbatim>\<open>taf.updater.updater\<close>)
  the walk of the commits in fetch order, oldest first (section
  4.3): a commit is validated against the generation the commits before it reached, and a
  rejection halts the chain at that commit.
\<close>

fun validate_chain :: "crypto \<Rightarrow> trusted \<Rightarrow> commit list \<Rightarrow> chain_result" where
  "validate_chain cr T [] =
     \<lparr>chain_trusted = T, chain_promoted = [], chain_evaluated = [], chain_halt = None\<rparr>"
| "validate_chain cr T (c # cs) =
     (case validate_commit cr T c of
        Inl f \<Rightarrow>
          \<lparr>chain_trusted = T, chain_promoted = [], chain_evaluated = [commit_ident c],
           chain_halt = Some (commit_ident c, f)\<rparr>
      | Inr T' \<Rightarrow>
          (let r = validate_chain cr T' cs
           in r\<lparr>chain_promoted := commit_ident c # chain_promoted r,
                chain_evaluated := commit_ident c # chain_evaluated r\<rparr>))"

text \<open>
  Modelled from the spec: (missing: \<^verbatim>\<open>taf.updater.updater\<close>)
  the keys of a role's authorized set that signed a document, with
  a signature that verifies over its canonical byte form (section 3, the invariant of a
  Metadata Generation).
\<close>

definition authorized_signers :: "crypto \<Rightarrow> trusted \<Rightarrow> role \<Rightarrow> generation \<Rightarrow> key_id set" where
  "authorized_signers cr T r g =
     {kid \<in> set (role_keyids r).
        \<exists>k s. resolveKey T kid = Some k \<and> (kid, s) \<in> set (gen_signatures g) \<and>
              verify_signature cr k (canonical_form cr (signed_part g)) s}"

subsection \<open>Repository layout resolver\<close>

text \<open>
  Modelled from the spec: (missing: \<^verbatim>\<open>taf.updater.updater\<close>)
  one level up from a directory (section 4.4); a path is the list
  of its components.
\<close>

definition parent :: "path \<Rightarrow> path" where
  "parent p = butlast p"

text \<open>Modelled from the spec: (missing: \<^verbatim>\<open>taf.updater.updater\<close>)
  the name of a directory, its last component (section 4.4).\<close>

definition dir_name :: "path \<Rightarrow> string" where
  "dir_name p = (if p = [] then [] else last p)"

text \<open>
  Modelled from the spec: (missing: \<^verbatim>\<open>taf.updater.updater\<close>)
  what the Repository Layout Resolver computes (section 4.4): the
  root directory under which target repositories live and the namespace prefix.
\<close>

record layout =
  root_dir :: path
  namespace :: string

text \<open>
  Modelled from the spec: (missing: \<^verbatim>\<open>taf.updater.updater\<close>)
  the Repository Layout Resolver of section 4.4, which is not
  under \<^verbatim>\<open>src/\<close>: the root directory is two levels up from the authentication repository's
  directory and the namespace is the name of the directory containing it, and an explicit
  library directory or namespace takes precedence.
\<close>

definition resolve_layout :: "path \<Rightarrow> path option \<Rightarrow> string option \<Rightarrow> layout" where
  "resolve_layout auth_path library_dir ns =
     \<lparr>root_dir = (case library_dir of Some d \<Rightarrow> d | None \<Rightarrow> parent (parent auth_path)),
      namespace = (case ns of Some n \<Rightarrow> n | None \<Rightarrow> dir_name (parent auth_path))\<rparr>"

text \<open>Modelled from the spec: (missing: \<^verbatim>\<open>taf.updater.updater\<close>)
  the components of a namespaced name (section 4.4).\<close>

fun split_on :: "char \<Rightarrow> string \<Rightarrow> string list" where
  "split_on sep [] = [[]]"
| "split_on sep (c # cs) =
     (if c = sep then [] # split_on sep cs
      else (case split_on sep cs of [] \<Rightarrow> [[c]] | w # ws \<Rightarrow> (c # w) # ws))"

text \<open>
  Modelled from the spec: (missing: \<^verbatim>\<open>taf.updater.updater\<close>)
  \<^verbatim>\<open>resolveTargetPath(namespacedName) -> path\<close> of section 4.4, the
  namespaced name below the root directory.
\<close>

definition resolveTargetPath :: "layout \<Rightarrow> string \<Rightarrow> path" where
  "resolveTargetPath l namespacedName = root_dir l @ split_on CHR ''/'' namespacedName"

subsection \<open>Target repository validator\<close>

text \<open>
  Modelled from the spec: (missing: \<^verbatim>\<open>taf.updater.updater\<close>)
  the Target Repository entity (section 3): namespaced name,
  resolved url or path, local commit history.
\<close>

record target_repo =
  tr_name :: string
  tr_url :: string
  tr_history :: "commit_id list"

text \<open>Modelled from the spec: (missing: \<^verbatim>\<open>taf.updater.updater\<close>)
  the substitution of a placeholder in a template (section 3).\<close>

fun replace_all :: "string \<Rightarrow> string \<Rightarrow> string \<Rightarrow> string" where
  "replace_all pat rep [] = []"
| "replace_all pat rep (c # cs) =
     (if pat \<noteq> [] \<and> take (length pat) (c # cs) = pat
      then rep @ replace_all pat rep (drop (length pat - 1) cs)
      else c # replace_all pat rep cs)"

text \<open>
  Modelled from the spec: (missing: \<^verbatim>\<open>taf.updater.updater\<close>)
  the url a Mirrors Descriptor template gives a repository name
  (sections 3 and 6): \<^verbatim>\<open>{org_name}\<close> and \<^verbatim>\<open>{repo_name}\<close> replaced by the two parts of the
  name.
\<close>

definition mirror_url :: "string \<Rightarrow> string \<Rightarrow> string" where
  "mirror_url namespacedName template =
     (let parts = split_on CHR ''/'' namespacedName
      in replace_all ''{repo_name}'' (last parts)
           (replace_all ''{org_name}'' (hd parts) template))"

text \<open>
  Modelled from the spec: (missing: \<^verbatim>\<open>taf.updater.updater\<close>)
  the urls a repository may have (section 4.5): those of the
  descriptor, or those of the mirrors' templates when the descriptor has none.
\<close>

definition expected_urls :: "string list option \<Rightarrow> string \<Rightarrow> descriptor_entry \<Rightarrow> string list" where
  "expected_urls mirrors namespacedName e =
     (if de_urls e \<noteq> [] then de_urls e
      else (case mirrors of None \<Rightarrow> [] | Some ts \<Rightarrow> map (mirror_url namespacedName) ts))"

text \<open>Modelled from the spec: (missing: \<^verbatim>\<open>taf.updater.updater\<close>)
  commits occur in a history in the same order (section 4.5).\<close>

fun in_order :: "'a list \<Rightarrow> 'a list \<Rightarrow> bool" where
  "in_order [] ys = True"
| "in_order (x # xs) [] = False"
| "in_order (x # xs) (y # ys) = (if x = y then in_order xs ys else in_order (x # xs) ys)"

text \<open>
  Modelled from the spec: (missing: \<^verbatim>\<open>taf.updater.updater\<close>)
  \<^verbatim>\<open>validate(targetRepo, descriptorEntry, pinnedCommits)\<close> of
  section 4.5, with its failure kinds \<^verbatim>\<open>UrlMismatch\<close>, \<^verbatim>\<open>MissingPinnedCommit\<close> and
  \<^verbatim>\<open>CommitOrderMismatch\<close>.
\<close>

definition validate_target ::
  "string list option \<Rightarrow> target_repo \<Rightarrow> descriptor_entry \<Rightarrow> commit_id list \<Rightarrow>
     failure option" where
  "validate_target mirrors repo e pinned =
     (if tr_url repo \<notin> set (expected_urls mirrors (tr_name repo) e) then Some UrlMismatch
      else if \<not> set pinned \<subseteq> set (tr_history repo) then Some MissingPinnedCommit
      else if \<not> in_order (remdups_adj pinned) (tr_history repo) then Some CommitOrderMismatch
      else None)"

subsection \<open>Update session orchestrator\<close>

text \<open>
  Modelled from the spec: (missing: \<^verbatim>\<open>taf.updater.updater\<close>)
  the durable local state (sections 2, 3 and 5): the trusted
  pointer, the last known trusted generation, and the working trees of the target
  repositories by path.
\<close>

record local_state =
  trusted_pointer :: "commit option"
  trusted_metadata :: trusted
  working_trees :: "(path \<times> target_repo) list"

text \<open>
  Modelled from the spec: (missing: \<^verbatim>\<open>taf.updater.updater\<close>)
  what one update invocation is given (section 6, the CLI
  surface): the source url, the authentication repository's path and the optional
  overrides of the layout.
\<close>

record request =
  rq_url :: string
  rq_auth_path :: path
  rq_library_dir :: "path option"
  rq_namespace :: "string option"

text \<open>
  Modelled from the spec: (missing: \<^verbatim>\<open>taf.updater.updater\<close>)
  the Update Session entity (section 3): source url, local
  auth-repo path, resolved library directory, last known trusted generation, newly fetched
  commits; the outcome is what the run returns.
\<close>

record session =
  source_url :: string
  local_auth_path :: path
  library_dir :: path
  last_trusted :: trusted
  new_commits :: "commit list"

text \<open>
  Modelled from the spec: (missing: \<^verbatim>\<open>taf.updater.updater\<close>)
  the external git capability (sections 1 and 4.6): fetching the
  authentication repository's commits, oldest first, and fetching a target repository;
  either may end in a failure, after its retries (section 5).
\<close>

record fetcher =
  fetch_commits :: "string \<Rightarrow> failure + commit list"
  fetch_target :: "string \<Rightarrow> string list \<Rightarrow> failure + target_repo"

text \<open>
  Modelled from the spec: (missing: \<^verbatim>\<open>taf.updater.updater\<close>)
  the reason of a rejected session (sections 4.6 and 7): the
  trust-chain failure and its commit, the target-repository failures aggregated, or a
  failure of the session itself.
\<close>

datatype reason =
    ChainRejected commit_id failure
  | TargetsRejected "(string \<times> failure) list"
  | SessionFailed failure

text \<open>
  Modelled from the spec: (missing: \<^verbatim>\<open>taf.updater.updater\<close>)
  the result of \<^verbatim>\<open>run\<close> (section 4.6):
  \<^verbatim>\<open>{acceptedCommit, perRepoResults} | Rejected(reason)\<close>.
\<close>

datatype outcome =
    Accepted commit_id "(string \<times> target_repo) list"
  | Rejected reason

text \<open>
  Modelled from the spec: (missing: \<^verbatim>\<open>taf.updater.updater\<close>)
  the commits strictly after the last locally trusted commit,
  oldest first (section 4.6, step 2).
\<close>

fun commits_after :: "commit option \<Rightarrow> commit list \<Rightarrow> commit list" where
  "commits_after None cs = cs"
| "commits_after (Some p) [] = []"
| "commits_after (Some p) (c # cs) =
     (if commit_ident c = commit_ident p then cs else commits_after (Some p) cs)"

text \<open>
  Modelled from the spec: (missing: \<^verbatim>\<open>taf.updater.updater\<close>)
  steps 1 and 2 of section 4.6: the layout is resolved, the
  authentication repository is fetched and the commits to validate are enumerated.
\<close>

definition begin_session :: "fetcher \<Rightarrow> request \<Rightarrow> local_state \<Rightarrow> failure + session" where
  "begin_session io rq st =
     (case fetch_commits io (rq_url rq) of
        Inl f \<Rightarrow> Inl f
      | Inr history \<Rightarrow>
          Inr \<lparr>source_url = rq_url rq, local_auth_path = rq_auth_path rq,
               library_dir =
                 root_dir (resolve_layout (rq_auth_path rq) (rq_library_dir rq) (rq_namespace rq)),
               last_trusted = trusted_metadata st,
               new_commits = commits_after (trusted_pointer st) history\<rparr>)"

text \<open>
  Modelled from the spec: (missing: \<^verbatim>\<open>taf.updater.updater\<close>)
  the commits the validated metadata pins for a repository, in
  commit order (section 4.5).
\<close>

definition pinned_commits :: "string \<Rightarrow> commit list \<Rightarrow> commit_id list" where
  "pinned_commits name cs =
     concat (map (\<lambda>c. map snd (filter (\<lambda>(n, h). n = name) (commit_pins c))) cs)"

text \<open>
  Modelled from the spec: (missing: \<^verbatim>\<open>taf.updater.updater\<close>)
  one repository of the descriptor fetched and validated (section
  4.6, step 4); a fetch failure is recorded for the repository (section 5).
\<close>

definition check_target ::
  "fetcher \<Rightarrow> string list option \<Rightarrow> commit list \<Rightarrow> string \<times> descriptor_entry \<Rightarrow>
     string \<times> (failure + target_repo)" where
  "check_target io mirrors cs entry =
     (case entry of (name, e) \<Rightarrow>
        (case fetch_target io name (expected_urls mirrors name e) of
           Inl f \<Rightarrow> (name, Inl f)
         | Inr repo \<Rightarrow>
             (case validate_target mirrors repo e (pinned_commits name cs) of
                Some f \<Rightarrow> (name, Inl f)
              | None \<Rightarrow> (name, Inr repo))))"

text \<open>
  Modelled from the spec: (missing: \<^verbatim>\<open>taf.updater.updater\<close>)
  the failures of all target repositories, aggregated before the
  outcome is decided (sections 4.5 and 7).
\<close>

definition target_failures ::
  "(string \<times> (failure + target_repo)) list \<Rightarrow> (string \<times> failure) list" where
  "target_failures results =
     concat (map (\<lambda>(n, r). case r of Inl f \<Rightarrow> [(n, f)] | Inr repo \<Rightarrow> []) results)"

text \<open>Modelled from the spec: (missing: \<^verbatim>\<open>taf.updater.updater\<close>)
  the validated copies of the target repositories (section 4.6).\<close>

definition target_copies ::
  "(string \<times> (failure + target_repo)) list \<Rightarrow> (string \<times> target_repo) list" where
  "target_copies results =
     concat (map (\<lambda>(n, r). case r of Inl f \<Rightarrow> [] | Inr repo \<Rightarrow> [(n, repo)]) results)"

text \<open>
  Modelled from the spec: (missing: \<^verbatim>\<open>taf.updater.updater\<close>)
  the final trusted commit reached (section 4.6, step 4): the last
  of the new commits, or the commit of the trusted pointer when there is none.
\<close>

definition final_commit :: "local_state \<Rightarrow> session \<Rightarrow> commit option" where
  "final_commit st s =
     (if new_commits s = [] then trusted_pointer st else Some (last (new_commits s)))"

text \<open>
  Modelled from the spec: (missing: \<^verbatim>\<open>taf.updater.updater\<close>)
  the merge of the validated copies into the working trees, each
  at the path of its name below the library directory (sections 2 and 4.4).
\<close>

definition merge_copies ::
  "path \<Rightarrow> (string \<times> target_repo) list \<Rightarrow> (path \<times> target_repo) list \<Rightarrow>
     (path \<times> target_repo) list" where
  "merge_copies root copies trees =
     map (\<lambda>(n, repo). (root @ split_on CHR ''/'' n, repo)) copies @
     filter (\<lambda>(p, repo). p \<notin> (\<lambda>(n, repo). root @ split_on CHR ''/'' n) ` set copies) trees"

text \<open>
  Modelled from the spec: (missing: \<^verbatim>\<open>taf.updater.updater\<close>)
  the results of the Target Repository Validator for every
  repository the final commit's descriptor lists (section 4.6, step 4).
\<close>

definition target_results ::
  "fetcher \<Rightarrow> session \<Rightarrow> commit \<Rightarrow> (string \<times> (failure + target_repo)) list" where
  "target_results io s c =
     map (check_target io (commit_mirrors c) (new_commits s)) (commit_repositories c)"

text \<open>
  Modelled from the spec: (missing: \<^verbatim>\<open>taf.updater.updater\<close>)
  \<^verbatim>\<open>run(session)\<close>, steps 3 to 5 of section 4.6: the new commits
  go through the Trust Chain Validator, which stops at the first rejection; the target
  repositories of the final commit are validated; if all pass, the trusted pointer
  advances to the final commit and the validated state is merged, otherwise the failure is
  reported and the local state is left as it is.
\<close>

definition run :: "crypto \<Rightarrow> fetcher \<Rightarrow> session \<Rightarrow> local_state \<Rightarrow> outcome \<times> local_state" where
  "run cr io s st =
     (let chain = validate_chain cr (last_trusted s) (new_commits s)
      in case chain_halt chain of
           Some (cid, f) \<Rightarrow> (Rejected (ChainRejected cid f), st)
         | None \<Rightarrow>
             (case final_commit st s of
                None \<Rightarrow> (Rejected (SessionFailed NotFound), st)
              | Some c \<Rightarrow>
                  (let results = target_results io s c
                   in if target_failures results = [] then
                        (Accepted (commit_ident c) (target_copies results),
                         st\<lparr>trusted_pointer := Some c,
                            trusted_metadata := chain_trusted chain,
                            working_trees :=
                              merge_copies (library_dir s) (target_copies results)
                                (working_trees st)\<rparr>)
                      else (Rejected (TargetsRejected (target_failures results)), st))))"

text \<open>
  Modelled from the spec: (missing: \<^verbatim>\<open>taf.updater.updater\<close>)
  one update session from its request, steps 1 to 5 of section
  4.6; a session that cannot fetch the authentication repository is rejected.
\<close>

definition update_session ::
  "crypto \<Rightarrow> fetcher \<Rightarrow> request \<Rightarrow> local_state \<Rightarrow> outcome \<times> local_state" where
  "update_session cr io rq st =
     (case begin_session io rq st of
        Inl f \<Rightarrow> (Rejected (SessionFailed f), st)
      | Inr s \<Rightarrow> run cr io s st)"

subsection \<open>A concrete repository\<close>

text \<open>
  The scenario of the specification's section 8, for the statements below: a root role
  with a threshold of 2 of 3 keys and a targets role with 1 of 1; commit \<open>A\<close> signed by
  two root keys and the targets key; commit \<open>B\<close> with the targets version of \<open>A\<close> again,
  signed or not; and a signature scheme in which a key's signature of a message is its
  public bytes followed by the message.
\<close>

definition toy_crypto :: crypto where
  "toy_crypto =
     \<lparr>verify_signature = (\<lambda>k m s. s = key_public k @ m),
      canonical_form = (\<lambda>(r, v, e, c). r @ replicate v CHR ''+''),
      content_hash = (\<lambda>g. gen_role g @ replicate (gen_version g) CHR ''+'')\<rparr>"

definition toy_key :: "key_id \<Rightarrow> key" where
  "toy_key kid = \<lparr>key_ident = kid, key_public = ''pub-'' @ kid, key_scheme = ''rsa-pkcs1v15-sha256''\<rparr>"

definition toy_sign :: "key_id \<Rightarrow> role_name \<Rightarrow> nat \<Rightarrow> key_id \<times> signature" where
  "toy_sign kid r v = (kid, ''pub-'' @ kid @ r @ replicate v CHR ''+'')"

definition example_root :: content where
  "example_root =
     RootKeys (map toy_key [''k1'', ''k2'', ''k3'', ''k4''])
       [\<lparr>role_title = ''root'', role_keyids = [''k1'', ''k2'', ''k3''], role_threshold = 2,
         role_expiration = None\<rparr>,
        \<lparr>role_title = ''targets'', role_keyids = [''k4''], role_threshold = 1,
         role_expiration = None\<rparr>]"

definition example_trusted :: trusted where
  "example_trusted =
     [(''root'', \<lparr>gen_role = ''root'', gen_version = 1, gen_expires = 100,
                 gen_content = example_root,
                 gen_signatures = [toy_sign ''k1'' ''root'' 1, toy_sign ''k2'' ''root'' 1]\<rparr>),
      (''targets'', \<lparr>gen_role = ''targets'', gen_version = 1, gen_expires = 100,
                    gen_content = TargetManifest [],
                    gen_signatures = [toy_sign ''k4'' ''targets'' 1]\<rparr>)]"

definition example_document :: "role_name \<Rightarrow> nat \<Rightarrow> content \<Rightarrow> key_id list \<Rightarrow> role_name \<times> raw_document" where
  "example_document r v c signers =
     (r, \<lparr>raw_version = Some v, raw_expires = Some 100, raw_content = Some c,
          raw_signatures = Some (map (\<lambda>k. toy_sign k r v) signers)\<rparr>)"

definition example_commit :: "commit_id \<Rightarrow> timestamp \<Rightarrow> (role_name \<times> raw_document) list \<Rightarrow> commit" where
  "example_commit cid t docs =
     \<lparr>commit_ident = cid, commit_time = t, commit_documents = docs,
      commit_repositories = [(''ns/repo1'', \<lparr>de_urls = [''https://example.org/ns/repo1.git''],
                                            de_custom = []\<rparr>)],
      commit_mirrors = None, commit_pins = [(''ns/repo1'', ''c1'')]\<rparr>"

definition commit_A :: commit where
  "commit_A = example_commit ''A'' 10
     [example_document ''root'' 2 example_root [''k1'', ''k3''],
      example_document ''targets'' 2 (TargetManifest [(''ns/repo1'', ''h1'')]) [''k4'']]"

definition commit_B :: commit where
  "commit_B = example_commit ''B'' 20
     [example_document ''targets'' 2 (TargetManifest [(''ns/repo1'', ''h1'')]) [''k4'']]"

definition commit_B_unsigned :: commit where
  "commit_B_unsigned = example_commit ''B'' 20
     [example_document ''targets'' 2 (TargetManifest [(''ns/repo1'', ''h1'')]) []]"

definition commit_C :: commit where
  "commit_C = example_commit ''C'' 30
     [example_document ''targets'' 3 (TargetManifest [(''ns/repo1'', ''h2'')]) [''k4'']]"

definition example_generation :: "role_name \<Rightarrow> nat \<Rightarrow> content \<Rightarrow> key_id list \<Rightarrow> generation" where
  "example_generation r v c signers =
     \<lparr>gen_role = r, gen_version = v, gen_expires = 100, gen_content = c,
      gen_signatures = map (\<lambda>k. toy_sign k r v) signers\<rparr>"

definition targets_role :: role where
  "targets_role = \<lparr>role_title = ''targets'', role_keyids = [''k4''], role_threshold = 1,
                    role_expiration = None\<rparr>"

definition trusted_after_A :: trusted where
  "trusted_after_A =
     [(''root'', example_generation ''root'' 2 example_root [''k1'', ''k3'']),
      (''targets'', example_generation ''targets'' 2 (TargetManifest [(''ns/repo1'', ''h1'')]) [''k4''])]"

definition example_fetcher :: "commit list \<Rightarrow> fetcher" where
  "example_fetcher history =
     \<lparr>fetch_commits = (\<lambda>url. Inr history),
      fetch_target = (\<lambda>name urls.
        Inr \<lparr>tr_name = name, tr_url = ''https://example.org/ns/repo1.git'',
             tr_history = [''c0'', ''c1'']\<rparr>)\<rparr>"

definition example_request :: request where
  "example_request =
     \<lparr>rq_url = ''https://example.org/auth.git'', rq_auth_path = [''library'', ''ns'', ''auth''],
      rq_library_dir = None, rq_namespace = None\<rparr>"

definition example_state :: local_state where
  "example_state =
     \<lparr>trusted_pointer = None, trusted_metadata = example_trusted, working_trees = []\<rparr>"

definition example_session :: "commit list \<Rightarrow> session" where
  "example_session cs =
     \<lparr>source_url = ''https://example.org/auth.git'', local_auth_path = [''library'', ''ns'', ''auth''],
      library_dir = [''library''], last_trusted = example_trusted, new_commits = cs\<rparr>"

section \<open>Properties of the command-line layer\<close>

lemma update_command_reaches_call:
  assumes "update_options_valid cl"
    and "UpdateType env (option_default ''either'' (opt_expected_repo_type cl)) = Inr t"
  shows "update_command env cl =
           update env (the (arg_url cl)) (opt_clients_auth_path cl) (opt_clients_library_dir cl)
             (option_default ''main'' (opt_default_branch cl)) (flag_from_fs cl)
             (option_default ''either'' (opt_expected_repo_type cl)) (opt_scripts_root_dir cl)
             (flag_profile cl) (flag_format_output cl)"
  using assms
  by (auto simp: update_options_valid_def update_command_def click_choice_def
      split: option.splits)

lemma update_calls:
  assumes "clients_auth_path \<noteq> None \<or> clients_library_dir \<noteq> None"
    and "UpdateType env expected_repo_type = Inr t"
  shows "res_calls (update env url clients_auth_path clients_library_dir default_branch from_fs
            expected_repo_type scripts_root_dir profile format_output) =
         [\<lparr>ua_url = url, ua_clients_auth_path = clients_auth_path,
           ua_clients_library_dir = clients_library_dir,
           ua_default_branch = default_branch, ua_from_fs = from_fs,
           ua_expected_repo_type = t, ua_scripts_root_dir = scripts_root_dir\<rparr>]"
  using assms by (auto simp: update_def Let_def split: sum.splits)

lemma update_command_calls:
  assumes "update_options_valid cl"
    and "UpdateType env (option_default ''either'' (opt_expected_repo_type cl)) = Inr t"
  shows "res_calls (update_command env cl) = [update_args_of cl t]"
  using assms(1) update_calls[OF _ assms(2)]
  by (simp add: update_command_reaches_call[OF assms] update_args_of_def update_options_valid_def)

lemma update_calls_without_type:
  assumes "UpdateType env expected_repo_type = Inl e"
  shows "res_calls (update env url clients_auth_path clients_library_dir default_branch from_fs
            expected_repo_type scripts_root_dir profile format_output) = []"
  using assms by (simp add: update_def Let_def)

lemma exit_status_caught: "as_Exception e = Some msg \<Longrightarrow> exit_status (Inl e) \<noteq> 0"
  by (cases e) auto

lemma update_outcome:
  assumes "clients_auth_path \<noteq> None \<or> clients_library_dir \<noteq> None"
    and "UpdateType env expected_repo_type = Inr t"
    and "r = update env url clients_auth_path clients_library_dir default_branch from_fs
            expected_repo_type scripts_root_dir profile format_output"
    and "a = \<lparr>ua_url = url, ua_clients_auth_path = clients_auth_path,
           ua_clients_library_dir = clients_library_dir,
           ua_default_branch = default_branch, ua_from_fs = from_fs,
           ua_expected_repo_type = t, ua_scripts_root_dir = scripts_root_dir\<rparr>"
  shows "res_value r = (case update_repository env a of
                          Inr u \<Rightarrow> Inr ()
                        | Inl e \<Rightarrow> fst (except_clause format_output e))"
    and "res_stdout r = (if profile then [Print ''Profiling...''] else []) @
           (case update_repository env a of
              Inr u \<Rightarrow> if format_output then [PrintJson success_payload] else []
            | Inl e \<Rightarrow> snd (except_clause format_output e))"
  using assms by (auto simp: update_def Let_def split: sum.splits)

text \<open>
  Claim C1, as the code has it. When \<^verbatim>\<open>update\<close> runs with \<^verbatim>\<open>--format-output\<close> and
  \<^verbatim>\<open>update_repository\<close> raises an \<^verbatim>\<open>Exception\<close>, the command prints the payload
  \<^verbatim>\<open>{updateSuccessful: false, error: str(e)}\<close> and returns, so the exit status is zero;
  without \<^verbatim>\<open>--format-output\<close> the exception is raised again, nothing is printed for it
  and the exit status is not zero. When the update succeeds the exit status is zero, and
  with \<^verbatim>\<open>--format-output\<close> the payload \<^verbatim>\<open>{updateSuccessful: true}\<close> is printed.
\<close>

theorem update_structured_output_exit:
  assumes valid: "update_options_valid cl"
    and ut: "UpdateType env (option_default ''either'' (opt_expected_repo_type cl)) = Inr t"
  shows "(update_repository env (update_args_of cl t) = Inr () \<longrightarrow>
            exit_status (res_value (update_command env cl)) = 0 \<and>
            res_stdout (update_command env cl) = profiling_lines cl @
              (if flag_format_output cl then [PrintJson success_payload] else [])) \<and>
         (\<forall>e msg. update_repository env (update_args_of cl t) = Inl e \<and>
              as_Exception e = Some msg \<longrightarrow>
            (if flag_format_output cl
             then res_value (update_command env cl) = Inr () \<and>
                  exit_status (res_value (update_command env cl)) = 0 \<and>
                  res_stdout (update_command env cl) =
                    profiling_lines cl @ [PrintJson (error_payload msg)]
             else res_value (update_command env cl) = Inl e \<and>
                  exit_status (res_value (update_command env cl)) \<noteq> 0 \<and>
                  res_stdout (update_command env cl) = profiling_lines cl))"
proof -
  have some: "opt_clients_auth_path cl \<noteq> None \<or> opt_clients_library_dir cl \<noteq> None"
    using valid by (simp add: update_options_valid_def)
  note eq = update_command_reaches_call[OF valid ut]
  note out = update_outcome[OF some ut eq, unfolded update_args_of_def[symmetric], OF refl]
  show ?thesis
    using exit_status_caught
    by (auto simp: out profiling_lines_def except_clause_def update_args_of_def)
qed

theorem update_structured_output_exit_witness:
  "update_options_valid example_update \<and>
   UpdateType (example_updater (Inl (Exception ''rejected''))) ''either'' = Inr ''either'' \<and>
   update_repository (example_updater (Inl (Exception ''rejected'')))
     (update_args_of example_update ''either'') = Inl (Exception ''rejected'') \<and>
   as_Exception (Exception ''rejected'') = Some ''rejected'' \<and>
   flag_format_output example_update \<and>
   res_value (update_command (example_updater (Inl (Exception ''rejected''))) example_update)
     = Inr () \<and>
   res_stdout (update_command (example_updater (Inl (Exception ''rejected''))) example_update)
     = [PrintJson (error_payload ''rejected'')] \<and>
   \<not> flag_format_output (example_update\<lparr>flag_format_output := False\<rparr>) \<and>
   res_value (update_command (example_updater (Inl (Exception ''rejected'')))
                (example_update\<lparr>flag_format_output := False\<rparr>))
     = Inl (Exception ''rejected'') \<and>
   res_stdout (update_command (example_updater (Inl (Exception ''rejected'')))
                (example_update\<lparr>flag_format_output := False\<rparr>)) = [] \<and>
   exit_status (res_value (update_command (example_updater (Inr ())) example_update)) = 0 \<and>
   res_stdout (update_command (example_updater (Inr ())) example_update)
     = [PrintJson success_payload]"
  using update_structured_output_exit
    [of example_update "example_updater (Inl (Exception ''rejected''))" "''either''"]
    update_structured_output_exit
    [of "example_update\<lparr>flag_format_output := False\<rparr>"
        "example_updater (Inl (Exception ''rejected''))" "''either''"]
    update_structured_output_exit
    [of example_update "example_updater (Inr ())" "''either''"]
  by (simp add: update_options_valid_def example_update_def example_updater_def
      option_default_def expected_repo_type_choices_def profiling_lines_def)

text \<open>
  Claim C1 as the specification states it fails: with \<^verbatim>\<open>--format-output\<close> and a rejected
  update the payload is printed, but the exit status is zero.
\<close>

theorem update_structured_output_exit_counterexample:
  "flag_format_output example_update \<and>
   res_calls (update_command (example_updater (Inl (Exception ''rejected''))) example_update)
     = [update_args_of example_update ''either''] \<and>
   update_repository (example_updater (Inl (Exception ''rejected'')))
     (update_args_of example_update ''either'') = Inl (Exception ''rejected'') \<and>
   res_stdout (update_command (example_updater (Inl (Exception ''rejected''))) example_update)
     = [PrintJson (error_payload ''rejected'')] \<and>
   \<not> exit_status
       (res_value (update_command (example_updater (Inl (Exception ''rejected''))) example_update))
     \<noteq> 0"
  by (simp add: update_command_def update_def click_choice_def except_clause_def
      example_update_def example_updater_def update_args_of_def
      option_default_def expected_repo_type_choices_def)

text \<open>
  Claim C5. An invocation of \<^verbatim>\<open>update\<close> that passes option validation calls
  \<^verbatim>\<open>update_repository\<close> exactly once, with the url given (the enumeration having a
  member for the chosen repository type); an invocation of \<^verbatim>\<open>validate\<close> calls
  \<^verbatim>\<open>validate_repository\<close> exactly once, with the clients-auth-path given, and ends as
  that call ends.
\<close>

theorem commands_call_updater_once:
  "(update_options_valid cl \<and> arg_url cl = Some url \<and>
    UpdateType env (option_default ''either'' (opt_expected_repo_type cl)) = Inr t \<longrightarrow>
      res_calls (update_command env cl) = [update_args_of cl t] \<and>
      ua_url (update_args_of cl t) = url) \<and>
   (varg_clients_auth_path vcl = Some path \<longrightarrow>
      vres_calls (validate_command env vcl) = [validate_args_of vcl] \<and>
      va_clients_auth_path (validate_args_of vcl) = path \<and>
      vres_value (validate_command env vcl) = validate_repository env (validate_args_of vcl))"
  using update_command_calls[of cl env t]
  by (auto simp: validate_command_def validate_def validate_args_of_def update_args_of_def Let_def)

theorem commands_call_updater_once_witness:
  "update_options_valid example_update \<and>
   arg_url example_update = Some ''https://example.org/auth.git'' \<and>
   UpdateType (example_updater (Inr ())) ''either'' = Inr ''either'' \<and>
   res_calls (update_command (example_updater (Inr ())) example_update) =
     [\<lparr>ua_url = ''https://example.org/auth.git'',
       ua_clients_auth_path = Some ''/library/namespace/auth'',
       ua_clients_library_dir = None, ua_default_branch = ''main'', ua_from_fs = False,
       ua_expected_repo_type = ''either'', ua_scripts_root_dir = None\<rparr>] \<and>
   varg_clients_auth_path example_validate = Some ''/library/namespace/auth'' \<and>
   vres_calls (validate_command (example_updater (Inr ())) example_validate) =
     [\<lparr>va_clients_auth_path = ''/library/namespace/auth'', va_clients_library_dir = None,
       va_default_branch = ''main'', va_from_commit = None\<rparr>]"
  using commands_call_updater_once
    [of example_update "''https://example.org/auth.git''" "example_updater (Inr ())"
        "''either''" example_validate "''/library/namespace/auth''"]
  by (simp add: update_options_valid_def example_update_def example_updater_def
      example_validate_def option_default_def expected_repo_type_choices_def
      update_args_of_def validate_args_of_def)

text \<open>
  Claim C6. \<^verbatim>\<open>--expected-repo-type\<close> accepts exactly \<^verbatim>\<open>test\<close>, \<^verbatim>\<open>official\<close> and
  \<^verbatim>\<open>either\<close>, and an omitted option stands for \<^verbatim>\<open>either\<close>; with any other value the
  command ends in a usage error with no call to \<^verbatim>\<open>update_repository\<close>; the accepted
  value reaches the updater as \<^verbatim>\<open>UpdateType(expected_repo_type)\<close>.
\<close>

theorem expected_repo_type_choice:
  "((\<exists>v. click_choice expected_repo_type_choices x = Inr v) \<longleftrightarrow>
      x = ''test'' \<or> x = ''official'' \<or> x = ''either'') \<and>
   update_command env (cl\<lparr>opt_expected_repo_type := None\<rparr>) =
     update_command env (cl\<lparr>opt_expected_repo_type := Some ''either''\<rparr>) \<and>
   (opt_expected_repo_type cl = Some x \<and> x \<noteq> ''test'' \<and> x \<noteq> ''official'' \<and>
    x \<noteq> ''either'' \<longrightarrow>
      (\<exists>m. res_value (update_command env cl) = Inl (UsageError m)) \<and>
      res_calls (update_command env cl) = [] \<and> res_stdout (update_command env cl) = []) \<and>
   (update_options_valid cl \<longrightarrow>
      (case UpdateType env (option_default ''either'' (opt_expected_repo_type cl)) of
         Inr t \<Rightarrow> res_calls (update_command env cl) = [update_args_of cl t]
       | Inl e \<Rightarrow> res_calls (update_command env cl) = []))"
proof -
  have a: "(\<exists>v. click_choice expected_repo_type_choices x = Inr v) \<longleftrightarrow>
      x = ''test'' \<or> x = ''official'' \<or> x = ''either''"
    by (auto simp: click_choice_def expected_repo_type_choices_def)
  have b: "update_command env (cl\<lparr>opt_expected_repo_type := None\<rparr>) =
     update_command env (cl\<lparr>opt_expected_repo_type := Some ''either''\<rparr>)"
    by (simp add: update_command_def option_default_def split: option.splits sum.splits)
  have c: "(\<exists>m. res_value (update_command env cl) = Inl (UsageError m)) \<and>
      res_calls (update_command env cl) = [] \<and> res_stdout (update_command env cl) = []"
    if "opt_expected_repo_type cl = Some x" "x \<noteq> ''test''" "x \<noteq> ''official''"
      "x \<noteq> ''either''"
    using that
    by (simp add: update_command_def click_choice_def expected_repo_type_choices_def
        option_default_def failed_parse_def split: option.splits)
  have d: "case UpdateType env (option_default ''either'' (opt_expected_repo_type cl)) of
         Inr t \<Rightarrow> res_calls (update_command env cl) = [update_args_of cl t]
       | Inl e \<Rightarrow> res_calls (update_command env cl) = []"
    if v: "update_options_valid cl"
  proof (cases "UpdateType env (option_default ''either'' (opt_expected_repo_type cl))")
    case (Inl e)
    have "update_command env cl =
           update env (the (arg_url cl)) (opt_clients_auth_path cl) (opt_clients_library_dir cl)
             (option_default ''main'' (opt_default_branch cl)) (flag_from_fs cl)
             (option_default ''either'' (opt_expected_repo_type cl)) (opt_scripts_root_dir cl)
             (flag_profile cl) (flag_format_output cl)"
      using v by (auto simp: update_options_valid_def update_command_def click_choice_def
          split: option.splits)
    then show ?thesis using Inl by (simp add: update_calls_without_type)
  next
    case (Inr t)
    then show ?thesis using update_command_calls[OF v Inr] by simp
  qed
  from a b c d show ?thesis by blast
qed

theorem expected_repo_type_choice_witness:
  "opt_expected_repo_type example_bad_type = Some ''production'' \<and>
   res_value (update_command (example_updater (Inr ())) example_bad_type) =
     Inl (UsageError ''Invalid value: production'') \<and>
   res_calls (update_command (example_updater (Inr ())) example_bad_type) = [] \<and>
   update_options_valid example_test_type \<and>
   UpdateType (example_updater (Inr ())) ''test'' = Inr ''test'' \<and>
   map ua_expected_repo_type
     (res_calls (update_command (example_updater (Inr ())) example_test_type)) = [''test'']"
  using expected_repo_type_choice
    [of "''production''" "example_updater (Inr ())" example_bad_type]
    expected_repo_type_choice
    [of "''test''" "example_updater (Inr ())" example_test_type]
  by (simp add: update_options_valid_def example_update_def example_updater_def
      example_bad_type_def example_test_type_def option_default_def
      expected_repo_type_choices_def update_args_of_def update_command_def click_choice_def
      failed_parse_def)

text \<open>
  Claim C9. With \<^verbatim>\<open>--clients-auth-path\<close> and \<^verbatim>\<open>--clients-library-dir\<close> both omitted,
  \<^verbatim>\<open>update\<close> ends in a usage error before any other work: nothing is printed, the
  profiler is not started and \<^verbatim>\<open>update_repository\<close> is not called. When click accepts
  the other parameters the error is the one of line 226.
\<close>

theorem update_requires_path_or_library:
  "opt_clients_auth_path cl = None \<and> opt_clients_library_dir cl = None \<longrightarrow>
     (\<exists>m. update_command env cl =
        \<lparr>res_value = Inl (UsageError m), res_stdout = [], res_calls = [],
         res_profiling = False\<rparr>) \<and>
     (arg_url cl \<noteq> None \<and>
      option_default ''either'' (opt_expected_repo_type cl) \<in> set expected_repo_type_choices
      \<longrightarrow> res_value (update_command env cl) = Inl (UsageError usage_message)) \<and>
     exit_status (res_value (update_command env cl)) = 2"
  by (auto simp: update_command_def update_def click_choice_def failed_parse_def
      split: option.splits sum.splits)

theorem update_requires_path_or_library_witness:
  "opt_clients_auth_path example_no_paths = None \<and>
   opt_clients_library_dir example_no_paths = None \<and>
   arg_url example_no_paths \<noteq> None \<and>
   update_command (example_updater (Inr ())) example_no_paths =
     \<lparr>res_value = Inl (UsageError usage_message), res_stdout = [], res_calls = [],
      res_profiling = False\<rparr>"
  using update_requires_path_or_library[of example_no_paths "example_updater (Inr ())"]
  by (auto simp: example_no_paths_def example_update_def option_default_def
      expected_repo_type_choices_def)

text \<open>
  Claim C10. Two runs of \<^verbatim>\<open>update\<close> that differ only in \<^verbatim>\<open>--profile\<close> and
  \<^verbatim>\<open>--format-output\<close> make the same calls to \<^verbatim>\<open>update_repository\<close>, with the same
  arguments.
\<close>

theorem profile_and_format_output_not_forwarded:
  "res_calls (update_command env (cl\<lparr>flag_profile := p, flag_format_output := f\<rparr>)) =
   res_calls (update_command env (cl\<lparr>flag_profile := p', flag_format_output := f'\<rparr>))"
  by (simp add: update_command_def update_def failed_parse_def Let_def
      split: option.splits sum.splits)

section \<open>Properties of the update and validation engine\<close>

subsection \<open>The chain of commits\<close>

lemma validate_chain_append:
  "chain_halt (validate_chain cr T0 pre) = None \<Longrightarrow>
   validate_chain cr T0 (pre @ cs) =
     (let r = validate_chain cr (chain_trusted (validate_chain cr T0 pre)) cs
      in r\<lparr>chain_promoted := map commit_ident pre @ chain_promoted r,
           chain_evaluated := map commit_ident pre @ chain_evaluated r\<rparr>)"
proof (induction pre arbitrary: T0)
  case Nil
  then show ?case by (simp add: Let_def)
next
  case (Cons c pre)
  show ?case
  proof (cases "validate_commit cr T0 c")
    case (Inl f)
    with Cons.prems show ?thesis by simp
  next
    case (Inr T')
    with Cons.prems have "chain_halt (validate_chain cr T' pre) = None"
      by (simp add: Let_def)
    from Cons.IH[OF this] Inr show ?thesis by (simp add: Let_def)
  qed
qed

lemma validate_chain_promoted_all:
  "chain_halt (validate_chain cr T0 cs) = None \<Longrightarrow>
   chain_promoted (validate_chain cr T0 cs) = map commit_ident cs \<and>
   chain_evaluated (validate_chain cr T0 cs) = map commit_ident cs"
proof (induction cs arbitrary: T0)
  case Nil
  then show ?case by simp
next
  case (Cons c cs)
  then show ?case by (cases "validate_commit cr T0 c") (auto simp: Let_def)
qed

lemma validate_chain_halts_at:
  assumes "chain_halt (validate_chain cr T0 pre) = None"
    and "validate_commit cr (chain_trusted (validate_chain cr T0 pre)) c = Inl f"
  shows "validate_chain cr T0 (pre @ c # post) =
           \<lparr>chain_trusted = chain_trusted (validate_chain cr T0 pre),
            chain_promoted = map commit_ident pre,
            chain_evaluated = map commit_ident pre @ [commit_ident c],
            chain_halt = Some (commit_ident c, f)\<rparr>"
  using assms by (simp add: validate_chain_append Let_def)

lemma validate_generations_fails:
  "(n, g) \<in> set gs \<Longrightarrow> validate_generation cr T c loaded g \<noteq> None \<Longrightarrow>
   validate_generations cr T c loaded gs \<noteq> None"
  by (induction gs) (auto split: option.splits)

lemma validate_generations_first_failure:
  "\<forall>(n', g') \<in> set before. validate_generation cr T c loaded g' = None \<Longrightarrow>
   validate_generation cr T c loaded g = Some f \<Longrightarrow>
   validate_generations cr T c loaded (before @ (n, g) # after) = Some f"
  by (induction before) (auto split: option.splits)


lemma validate_commit_fails:
  assumes "loadGenerations c = Inr loaded" and "(n, g) \<in> set loaded"
    and "validate_generation cr T c loaded g \<noteq> None"
  shows "\<exists>f. validate_commit cr T c = Inl f"
  using validate_generations_fails[OF assms(2,3)] assms(1)
  by (auto simp: validate_commit_def split: option.splits)

subsection \<open>Signatures\<close>

lemma verifying_keys_card:
  "length (verifying_keys cr T r g) =
   card {k \<in> set (role_keyids r). key_verifies cr T g k}"
proof -
  have "distinct (verifying_keys cr T r g)"
    by (simp add: verifying_keys_def)
  then have "length (verifying_keys cr T r g) = card (set (verifying_keys cr T r g))"
    by (simp add: distinct_card)
  also have "set (verifying_keys cr T r g) = {k \<in> set (role_keyids r). key_verifies cr T g k}"
    by (auto simp: verifying_keys_def)
  finally show ?thesis .
qed

lemma key_verifies_iff:
  "key_verifies cr T g kid \<longleftrightarrow>
   (\<exists>k s. resolveKey T kid = Some k \<and> (kid, s) \<in> set (gen_signatures g) \<and>
          verify_signature cr k (canonical_form cr (signed_part g)) s)"
  by (auto simp: key_verifies_def list_ex_iff split: option.splits)

lemma authorized_signers_card:
  "card (authorized_signers cr T r g) = length (verifying_keys cr T r g)"
  by (simp add: authorized_signers_def verifying_keys_card key_verifies_iff)

lemma insufficient_signatures_rejected:
  assumes "resolveRole T (gen_role g) = Some r"
    and "card (authorized_signers cr T r g) < role_threshold r"
  shows "validate_generation cr T c loaded g = Some InsufficientSignatures"
  using assms by (simp add: validate_generation_def signature_check_def authorized_signers_card)

lemma accepted_has_threshold:
  assumes "validate_generation cr T c loaded g = None"
  shows "\<exists>r. resolveRole T (gen_role g) = Some r \<and>
             role_threshold r \<le> card (authorized_signers cr T r g)"
  using assms
  by (auto simp: validate_generation_def signature_check_def authorized_signers_card
      split: option.splits if_splits)

subsection \<open>Sessions\<close>

lemma run_chain_halted:
  assumes "chain_halt (validate_chain cr (last_trusted s) (new_commits s)) = Some (cid, f)"
  shows "run cr io s st = (Rejected (ChainRejected cid f), st)"
  using assms by (simp add: run_def Let_def)

lemma run_cases:
  "run cr io s st = (out, st') \<Longrightarrow>
   (st' = st \<and> (\<exists>r. out = Rejected r)) \<or>
   (chain_halt (validate_chain cr (last_trusted s) (new_commits s)) = None \<and>
    (\<exists>c. final_commit st s = Some c \<and> target_failures (target_results io s c) = [] \<and>
         out = Accepted (commit_ident c) (target_copies (target_results io s c)) \<and>
         trusted_pointer st' = Some c \<and>
         trusted_metadata st' =
           chain_trusted (validate_chain cr (last_trusted s) (new_commits s))))"
  by (auto simp: run_def Let_def split: option.splits if_splits prod.splits)

subsection \<open>The concrete repository\<close>

lemma chain_A: "validate_chain toy_crypto example_trusted [commit_A] =
    \<lparr>chain_trusted = trusted_after_A, chain_promoted = [''A''], chain_evaluated = [''A''],
     chain_halt = None\<rparr>"
  by code_simp


lemma load_B_unsigned: "loadGenerations commit_B_unsigned =
    Inr [(''targets'', example_generation ''targets'' 2 (TargetManifest [(''ns/repo1'', ''h1'')]) [])]"
  by code_simp

subsection \<open>The claims about the engine\<close>

text \<open>
  Claim C2. The trusted pointer, and the durable local state with it, changes only when
  the whole session succeeds: the authentication repository was fetched, every new commit
  was promoted by the Trust Chain Validator and every target repository of the final commit
  was validated. A rejected session, whatever failed and however far validation went,
  leaves the local state exactly as it was.
\<close>

theorem session_all_or_nothing:
  "(snd (update_session cr io rq st) \<noteq> st \<longrightarrow>
      (\<exists>s c. begin_session io rq st = Inr s \<and>
         chain_halt (validate_chain cr (last_trusted s) (new_commits s)) = None \<and>
         chain_promoted (validate_chain cr (last_trusted s) (new_commits s)) =
           map commit_ident (new_commits s) \<and>
         final_commit st s = Some c \<and>
         target_failures (target_results io s c) = [] \<and>
         fst (update_session cr io rq st) =
           Accepted (commit_ident c) (target_copies (target_results io s c)) \<and>
         trusted_pointer (snd (update_session cr io rq st)) = Some c)) \<and>
   ((\<exists>r. fst (update_session cr io rq st) = Rejected r) \<longrightarrow>
      snd (update_session cr io rq st) = st) \<and>
   (\<forall>s. begin_session io rq st = Inr s \<and>
        (chain_halt (validate_chain cr (last_trusted s) (new_commits s)) \<noteq> None \<or>
         (\<exists>c. final_commit st s = Some c \<and> target_failures (target_results io s c) \<noteq> []))
      \<longrightarrow> snd (update_session cr io rq st) = st \<and>
          (\<exists>r. fst (update_session cr io rq st) = Rejected r))"
proof (cases "begin_session io rq st")
  case (Inl f)
  then show ?thesis by (simp add: update_session_def)
next
  case (Inr s)
  obtain out st' where r: "run cr io s st = (out, st')"
    by (cases "run cr io s st")
  have u: "update_session cr io rq st = (out, st')"
    using Inr r by (simp add: update_session_def)
  from run_cases[OF r] show ?thesis
  proof
    assume a: "st' = st \<and> (\<exists>r. out = Rejected r)"
    then show ?thesis using Inr u by auto
  next
    assume b: "chain_halt (validate_chain cr (last_trusted s) (new_commits s)) = None \<and>
      (\<exists>c. final_commit st s = Some c \<and> target_failures (target_results io s c) = [] \<and>
         out = Accepted (commit_ident c) (target_copies (target_results io s c)) \<and>
         trusted_pointer st' = Some c \<and>
         trusted_metadata st' =
           chain_trusted (validate_chain cr (last_trusted s) (new_commits s)))"
    then show ?thesis
      using Inr u validate_chain_promoted_all[of cr "last_trusted s" "new_commits s"]
      by auto
  qed
qed

theorem session_all_or_nothing_witness:
  "fst (update_session toy_crypto (example_fetcher [commit_A, commit_B]) example_request
          example_state) = Rejected (ChainRejected ''B'' RollbackDetected) \<and>
   snd (update_session toy_crypto (example_fetcher [commit_A, commit_B]) example_request
          example_state) = example_state \<and>
   trusted_pointer (snd (update_session toy_crypto (example_fetcher [commit_A])
          example_request example_state)) = Some commit_A \<and>
   trusted_pointer example_state = None \<and>
   chain_halt (validate_chain toy_crypto example_trusted [commit_A]) = None"
proof -
  have rejected: "fst (update_session toy_crypto (example_fetcher [commit_A, commit_B])
      example_request example_state) = Rejected (ChainRejected ''B'' RollbackDetected)"
    by code_simp
  have advanced: "trusted_pointer (snd (update_session toy_crypto (example_fetcher [commit_A])
      example_request example_state)) = Some commit_A"
    by code_simp
  show ?thesis
    using session_all_or_nothing
      [of toy_crypto "example_fetcher [commit_A, commit_B]" example_request example_state]
      session_all_or_nothing
      [of toy_crypto "example_fetcher [commit_A]" example_request example_state]
      rejected advanced
    by (simp add: chain_A example_state_def del: validate_chain.simps)
qed




text \<open>
  Claim C4. A generation is accepted only if at least \<^verbatim>\<open>threshold\<close> distinct keys
  authorized by the previously trusted generation have a signature that verifies over its
  canonical byte form. A generation signed by fewer fails validation with the
  insufficient-signature error; a session that reaches its commit is rejected at that
  commit and leaves the local state, the trusted pointer with it, as it was, and the
  reason is the insufficient-signature error when no generation checked before it at that
  commit fails.
\<close>

theorem threshold_signatures_required:
  "(validate_generation cr T c loaded g = None \<longrightarrow>
      (\<exists>r. resolveRole T (gen_role g) = Some r \<and>
           role_threshold r \<le> card (authorized_signers cr T r g))) \<and>
   (resolveRole T (gen_role g) = Some r \<and>
    card (authorized_signers cr T r g) < role_threshold r \<longrightarrow>
      validate_generation cr T c loaded g = Some InsufficientSignatures) \<and>
   (resolveRole T (gen_role g) = Some r \<and>
    card (authorized_signers cr T r g) < role_threshold r \<and>
    loadGenerations c = Inr loaded \<and> loaded = before @ (n, g) # after \<and>
    new_commits s = pre @ c # post \<and>
    chain_halt (validate_chain cr (last_trusted s) pre) = None \<and>
    chain_trusted (validate_chain cr (last_trusted s) pre) = T \<longrightarrow>
      (\<exists>f. run cr io s st = (Rejected (ChainRejected (commit_ident c) f), st) \<and>
           ((\<forall>(n', g') \<in> set before. validate_generation cr T c loaded g' = None)
              \<longrightarrow> f = InsufficientSignatures)))"
proof (intro conjI impI)
  assume "validate_generation cr T c loaded g = None"
  then show "\<exists>r. resolveRole T (gen_role g) = Some r \<and>
           role_threshold r \<le> card (authorized_signers cr T r g)"
    by (rule accepted_has_threshold)
next
  assume "resolveRole T (gen_role g) = Some r \<and>
    card (authorized_signers cr T r g) < role_threshold r"
  then show "validate_generation cr T c loaded g = Some InsufficientSignatures"
    using insufficient_signatures_rejected by blast
next
  assume b: "resolveRole T (gen_role g) = Some r \<and>
    card (authorized_signers cr T r g) < role_threshold r \<and>
    loadGenerations c = Inr loaded \<and> loaded = before @ (n, g) # after \<and>
    new_commits s = pre @ c # post \<and>
    chain_halt (validate_chain cr (last_trusted s) pre) = None \<and>
    chain_trusted (validate_chain cr (last_trusted s) pre) = T"
  then have bad: "validate_generation cr T c loaded g = Some InsufficientSignatures"
    using insufficient_signatures_rejected by blast
  from b have mem: "(n, g) \<in> set loaded" by simp
  from bad have "validate_generation cr T c loaded g \<noteq> None" by simp
  from validate_commit_fails[OF _ mem this] b
  obtain f where f: "validate_commit cr T c = Inl f" by blast
  from b have pre: "chain_halt (validate_chain cr (last_trusted s) pre) = None"
    and T: "chain_trusted (validate_chain cr (last_trusted s) pre) = T" by simp_all
  have "chain_halt (validate_chain cr (last_trusted s) (new_commits s)) =
          Some (commit_ident c, f)"
    using validate_chain_halts_at[OF pre f[folded T], of post] b by simp
  then have run: "run cr io s st = (Rejected (ChainRejected (commit_ident c) f), st)"
    by (rule run_chain_halted)
  have "f = InsufficientSignatures"
    if "\<forall>(n', g') \<in> set before. validate_generation cr T c loaded g' = None"
  proof -
    from validate_generations_first_failure[OF that bad, of n after]
    have "validate_commit cr T c = Inl InsufficientSignatures"
      using b by (simp add: validate_commit_def)
    with f show ?thesis by simp
  qed
  with run show "\<exists>f. run cr io s st = (Rejected (ChainRejected (commit_ident c) f), st) \<and>
                 ((\<forall>(n', g') \<in> set before. validate_generation cr T c loaded g' = None)
                    \<longrightarrow> f = InsufficientSignatures)"
    by blast
qed

theorem threshold_signatures_required_witness:
  "validate_generation toy_crypto example_trusted commit_A (projr (loadGenerations commit_A))
     (example_generation ''targets'' 2 (TargetManifest [(''ns/repo1'', ''h1'')]) [''k4''])
     = None \<and>
   resolveRole example_trusted ''targets'' = Some targets_role \<and>
   role_threshold targets_role \<le> card (authorized_signers toy_crypto example_trusted targets_role
          (example_generation ''targets'' 2 (TargetManifest [(''ns/repo1'', ''h1'')]) [''k4''])) \<and>
   resolveRole trusted_after_A ''targets'' = Some targets_role \<and>
   card (authorized_signers toy_crypto trusted_after_A targets_role
          (example_generation ''targets'' 2 (TargetManifest [(''ns/repo1'', ''h1'')]) [])) = 0 \<and>
   role_threshold targets_role = 1 \<and>
   loadGenerations commit_B_unsigned =
     Inr [(''targets'',
           example_generation ''targets'' 2 (TargetManifest [(''ns/repo1'', ''h1'')]) [])] \<and>
   validate_chain toy_crypto example_trusted [commit_A] =
     \<lparr>chain_trusted = trusted_after_A, chain_promoted = [''A''], chain_evaluated = [''A''],
      chain_halt = None\<rparr> \<and>
   validate_generation toy_crypto trusted_after_A commit_B_unsigned
     [(''targets'', example_generation ''targets'' 2 (TargetManifest [(''ns/repo1'', ''h1'')]) [])]
     (example_generation ''targets'' 2 (TargetManifest [(''ns/repo1'', ''h1'')]) [])
     = Some InsufficientSignatures \<and>
   run toy_crypto (example_fetcher [])
     (example_session [commit_A, commit_B_unsigned, commit_C]) example_state =
     (Rejected (ChainRejected ''B'' InsufficientSignatures), example_state)"
proof -
  let ?g = "example_generation ''targets'' 2 (TargetManifest [(''ns/repo1'', ''h1'')]) []"
  let ?s = "example_session [commit_A, commit_B_unsigned, commit_C]"
  have role: "resolveRole trusted_after_A (gen_role ?g) = Some targets_role"
    by code_simp
  have none: "card (authorized_signers toy_crypto trusted_after_A targets_role ?g) = 0"
    unfolding authorized_signers_card by code_simp
  have thr: "role_threshold targets_role = 1"
    by (simp add: targets_role_def)
  have sess: "new_commits ?s = [commit_A] @ commit_B_unsigned # [commit_C]"
    "last_trusted ?s = example_trusted"
    by (simp_all add: example_session_def)
  have id: "commit_ident commit_B_unsigned = ''B''"
    by (simp add: commit_B_unsigned_def example_commit_def)
  have name: "gen_role ?g = ''targets''"
    by (simp add: example_generation_def)
  let ?a = "example_generation ''targets'' 2 (TargetManifest [(''ns/repo1'', ''h1'')]) [''k4'']"
  have accepted: "validate_generation toy_crypto example_trusted commit_A
      (projr (loadGenerations commit_A)) ?a = None"
    by code_simp
  have role0: "resolveRole example_trusted (gen_role ?a) = Some targets_role"
    by code_simp
  from threshold_signatures_required
    [where cr = toy_crypto and T = example_trusted and c = commit_A
       and loaded = "projr (loadGenerations commit_A)" and g = ?a]
    accepted role0
  have enough: "role_threshold targets_role \<le>
      card (authorized_signers toy_crypto example_trusted targets_role ?a)"
    by simp
  note inst = threshold_signatures_required
    [where cr = toy_crypto and T = trusted_after_A and c = commit_B_unsigned
       and loaded = "[(''targets'', ?g)]" and g = ?g and r = targets_role
       and before = "[]" and n = "''targets''" and after = "[]" and s = ?s
       and pre = "[commit_A]" and post = "[commit_C]" and io = "example_fetcher []"
       and st = example_state]
  from inst role none thr
  have gen: "validate_generation toy_crypto trusted_after_A commit_B_unsigned
      [(''targets'', ?g)] ?g = Some InsufficientSignatures"
    by simp
  from inst role none thr load_B_unsigned sess chain_A
  have "run toy_crypto (example_fetcher []) ?s example_state =
     (Rejected (ChainRejected ''B'' InsufficientSignatures), example_state)"
    by (simp add: id del: validate_chain.simps)
  then show ?thesis
    using role none thr gen load_B_unsigned chain_A accepted role0 enough
    by (simp add: name example_generation_def del: validate_chain.simps)
qed

text \<open>
  Claim C7. Without an override the root directory is the path two levels up from the
  authentication repository's directory and the namespace is the name of the directory
  that contains it: for a repository at \<open>library/ns/repo\<close> they are \<open>library\<close> and
  \<open>ns\<close>. An explicit library directory or namespace takes precedence, whatever the
  path. The example of the commands' documentation (lines 98 to 103 and 208 to 214) comes
  out as documented: for \<^verbatim>\<open>E:/root/namespace/auth-repo\<close> the root is \<^verbatim>\<open>E:/root\<close>, the
  namespace is \<^verbatim>\<open>namespace\<close> and \<^verbatim>\<open>namespace/repo1\<close> lies at
  \<^verbatim>\<open>E:/root/namespace/repo1\<close>.
\<close>

theorem layout_default_and_overrides:
  "root_dir (resolve_layout (library @ [ns, repo]) None namespace_override) = library \<and>
   namespace (resolve_layout (library @ [ns, repo]) library_override None) = ns \<and>
   root_dir (resolve_layout auth_path None namespace_override) = parent (parent auth_path) \<and>
   namespace (resolve_layout auth_path library_override None) = dir_name (parent auth_path) \<and>
   root_dir (resolve_layout auth_path (Some d) namespace_override) = d \<and>
   namespace (resolve_layout auth_path library_override (Some n)) = n \<and>
   resolve_layout [''E:'', ''root'', ''namespace'', ''auth-repo''] None None =
     \<lparr>root_dir = [''E:'', ''root''], namespace = ''namespace''\<rparr> \<and>
   resolveTargetPath (resolve_layout [''E:'', ''root'', ''namespace'', ''auth-repo''] None None)
     ''namespace/repo1'' = [''E:'', ''root'', ''namespace'', ''repo1'']"
  by (simp add: resolve_layout_def parent_def dir_name_def butlast_append resolveTargetPath_def)

end
